theory Spec2Isabelle
  imports Complex_Main "HOL-Library.AList" "HOL-Library.Char_ord" "HOL-Library.List_Lexorder"
begin

section \<open>The RSI trading bot (src/app/behaviours/rsi\_bot.py)\<close>

text \<open>
  A shallow embedding of \<^verbatim>\<open>RsiBotBehaviour\<close>: its entry point \<^verbatim>\<open>run\<close>
  (classification and ordering of pairs, the sweep of open orders, reconciliation of the
  holdings table, the decision loop) and the two trade operations \<^verbatim>\<open>buy\<close> and
  \<^verbatim>\<open>sell\<close>.

  Volumes and prices are Python numbers; they are modelled as exact rationals. A Python
  \<^verbatim>\<open>dict\<close> is an association list in insertion order (keys distinct), read with
  \<open>map_of\<close> and written with \<open>AList.update\<close>, which overwrites in place or appends,
  as a dict does. Every exception the code can raise on these paths is a value of
  \<open>error\<close>, returned together with the database as it stands when the exception leaves
  the method.
\<close>

subsection \<open>Data\<close>

datatype error =
    KeyError
  | IndexError
  | ValueError
  | TypeError
  | NoResultFound
  | MultipleResultsFound

text \<open>The three balances of a holding, as the dictionaries built by
  \<^verbatim>\<open>__get_holdings\<close> carry them; a row of the holdings table adds its key.\<close>

record volumes =
  volume_free :: rat
  volume_used :: rat
  volume_total :: rat

record holding = volumes +
  exchange :: string
  symbol :: string

text \<open>The payload of \<^verbatim>\<open>create_transaction\<close>.\<close>

record transaction =
  tx_exchange :: string
  base_symbol :: string
  quote_symbol :: string
  action :: string
  base_value :: rat
  quote_value :: rat
  fee_rate :: rat
  base_volume :: rat
  quote_volume :: rat

text \<open>The database: the holdings table (a row is identified by its position) and the
  transactions table.\<close>

record db =
  holdings :: "holding list"
  transactions :: "transaction list"

text \<open>The part of \<^verbatim>\<open>behaviour_config\<close> that the code reads:
  \<^verbatim>\<open>['mode']\<close>, \<^verbatim>\<open>['buy']['trade_limits']\<close> and
  \<^verbatim>\<open>['open_order_max_hours']\<close>.\<close>

record behaviour_config =
  mode :: string
  trade_limits :: "(string \<times> rat) list"
  open_order_max_hours :: rat

text \<open>An order book: each side is a list of [price, size] entries.\<close>

record order_book =
  asks :: "(rat \<times> rat) list"
  bids :: "(rat \<times> rat) list"

type_synonym current_holdings = "(string \<times> (string \<times> volumes) list) list"

subsection \<open>The persistence collaborator\<close>

text \<open>Modelled from the spec: the database handler (\<^verbatim>\<open>db_handler\<close>) is not part of
  the source file. Section 6 of the specification gives its contract:
  \<^verbatim>\<open>read_holdings(filter?)\<close> returns a queryable collection of Holding,
  \<^verbatim>\<open>create_holding(payload)\<close>, \<^verbatim>\<open>update_holding(holding)\<close> and
  \<^verbatim>\<open>create_transaction(payload)\<close> store what they are given. A query result is
  the list of matching rows with their positions; \<^verbatim>\<open>count()\<close> is its length and
  \<^verbatim>\<open>one()\<close> returns the only row, raising when there is none or more than one.\<close>

definition read_holdings :: "db \<Rightarrow> string \<Rightarrow> string \<Rightarrow> (nat \<times> holding) list" where
  "read_holdings d ex smb =
     filter (\<lambda>r. exchange (snd r) = ex \<and> symbol (snd r) = smb) (enumerate 0 (holdings d))"

definition one_row :: "(nat \<times> holding) list \<Rightarrow> error + (nat \<times> holding)" where
  "one_row q = (case q of [] \<Rightarrow> Inl NoResultFound
                        | [r] \<Rightarrow> Inr r
                        | _ \<Rightarrow> Inl MultipleResultsFound)"

definition create_holding :: "holding \<Rightarrow> db \<Rightarrow> db" where
  "create_holding h d = d\<lparr>holdings := holdings d @ [h]\<rparr>"

definition update_holding :: "nat \<Rightarrow> holding \<Rightarrow> db \<Rightarrow> db" where
  "update_holding i h d = d\<lparr>holdings := (holdings d)[i := h]\<rparr>"

definition create_transaction :: "transaction \<Rightarrow> db \<Rightarrow> db" where
  "create_transaction t d = d\<lparr>transactions := transactions d @ [t]\<rparr>"

subsection \<open>Reading the holdings table: \_\_get\_holdings\<close>

definition row_volumes :: "holding \<Rightarrow> volumes" where
  "row_volumes row =
     \<lparr>volume_free = volume_free row, volume_used = volume_used row,
      volume_total = volume_total row\<rparr>"

definition add_row :: "holding \<Rightarrow> current_holdings \<Rightarrow> current_holdings" where
  "add_row row hs =
     (let hs1 = (if map_of hs (exchange row) = None
                 then AList.update (exchange row) [] hs else hs);
          inner = (case map_of hs1 (exchange row) of None \<Rightarrow> [] | Some m \<Rightarrow> m)
      in AList.update (exchange row) (AList.update (symbol row) (row_volumes row) inner) hs1)"

definition get_holdings :: "db \<Rightarrow> current_holdings" where
  "get_holdings d = fold add_row (holdings d) []"

text \<open>\<^verbatim>\<open>current_holdings[exchange][symbol]\<close>: either subscript raises KeyError.\<close>

definition lookup_holding :: "current_holdings \<Rightarrow> string \<Rightarrow> string \<Rightarrow> error + volumes" where
  "lookup_holding ch ex smb =
     (case map_of ch ex of
        None \<Rightarrow> Inl KeyError
      | Some m \<Rightarrow> (case map_of m smb of None \<Rightarrow> Inl KeyError | Some v \<Rightarrow> Inr v))"

subsection \<open>The trade operations\<close>

text \<open>\<^verbatim>\<open>side[0][0] if side else None\<close>, followed by \<^verbatim>\<open>if not price: return\<close>:
  the price at the top of the side, and nothing when the side is empty or that price is
  zero (a zero is as false as None).\<close>

definition top_price :: "(rat \<times> rat) list \<Rightarrow> rat option" where
  "top_price side =
     (case side of [] \<Rightarrow> None | e # _ \<Rightarrow> (if fst e = 0 then None else Some (fst e)))"

text \<open>The cap by \<^verbatim>\<open>behaviour_config['buy']['trade_limits']\<close>, which both operations
  read.\<close>

definition apply_trade_limit :: "behaviour_config \<Rightarrow> string \<Rightarrow> rat \<Rightarrow> rat" where
  "apply_trade_limit cfg smb amount =
     (case map_of (trade_limits cfg) smb of
        None \<Rightarrow> amount
      | Some trade_limit \<Rightarrow> (if amount > trade_limit then trade_limit else amount))"

text \<open>The mutation of a row read from the table: the free volume changes by \<open>delta\<close>,
  the used volume is kept, the total is recomputed.\<close>

definition adjust_free :: "holding \<Rightarrow> rat \<Rightarrow> holding" where
  "adjust_free h delta =
     h\<lparr>volume_free := volume_free h + delta,
       volume_total := (volume_free h + delta) + volume_used h\<rparr>"

definition buy ::
  "behaviour_config \<Rightarrow> (string \<Rightarrow> string \<Rightarrow> order_book) \<Rightarrow>
   string \<Rightarrow> string \<Rightarrow> string \<Rightarrow> string \<Rightarrow> current_holdings \<Rightarrow> db \<Rightarrow> error option \<times> db" where
  "buy cfg get_order_book base quote market_pair ex ch d =
     (case top_price (asks (get_order_book market_pair ex)) of
        None \<Rightarrow> (None, d)
      | Some base_ask \<Rightarrow>
        (case lookup_holding ch ex quote of
           Inl e \<Rightarrow> (Some e, d)
         | Inr current_symbol_holdings \<Rightarrow>
           let quote_bid = apply_trade_limit cfg quote (volume_free current_symbol_holdings);
               base_vol = quote_bid / base_ask;
               purchase_payload =
                 \<lparr>tx_exchange = ex, base_symbol = base, quote_symbol = quote,
                  action = ''buy_base'', base_value = base_ask, quote_value = quote_bid,
                  fee_rate = 0, base_volume = base_vol, quote_volume = quote_bid\<rparr>
           in if mode cfg = ''live'' then (None, create_transaction purchase_payload d)
              else
                let potential_holdings = read_holdings d ex base;
                    base_done =
                      (if length potential_holdings \<noteq> 0
                       then (case one_row potential_holdings of
                               Inl e \<Rightarrow> Inl e
                             | Inr (i, base_holding) \<Rightarrow>
                                 Inr (update_holding i (adjust_free base_holding base_vol) d))
                       else Inr (create_holding
                                   \<lparr>volume_free = base_vol, volume_used = 0,
                                    volume_total = base_vol, exchange = ex, symbol = base\<rparr> d))
                in (case base_done of
                      Inl e \<Rightarrow> (Some e, d)
                    | Inr d1 \<Rightarrow>
                      (case one_row (read_holdings d1 ex quote) of
                         Inl e \<Rightarrow> (Some e, d1)
                       | Inr (j, quote_holding) \<Rightarrow>
                           (None,
                            create_transaction purchase_payload
                              (update_holding j (adjust_free quote_holding (- quote_bid)) d1))))))"

definition sell ::
  "behaviour_config \<Rightarrow> (string \<Rightarrow> string \<Rightarrow> order_book) \<Rightarrow>
   string \<Rightarrow> string \<Rightarrow> string \<Rightarrow> string \<Rightarrow> current_holdings \<Rightarrow> db \<Rightarrow> error option \<times> db" where
  "sell cfg get_order_book base quote market_pair ex ch d =
     (case top_price (bids (get_order_book market_pair ex)) of
        None \<Rightarrow> (None, d)
      | Some bid \<Rightarrow>
        (case lookup_holding ch ex base of
           Inl e \<Rightarrow> (Some e, d)
         | Inr current_symbol_holdings \<Rightarrow>
           let base_bid = apply_trade_limit cfg base (volume_free current_symbol_holdings);
               quote_vol = base_bid * bid;
               sale_payload =
                 \<lparr>tx_exchange = ex, base_symbol = base, quote_symbol = quote,
                  action = ''sell_base'', base_value = bid, quote_value = quote_vol,
                  fee_rate = 0, base_volume = base_bid, quote_volume = quote_vol\<rparr>
           in if mode cfg = ''live'' then (None, create_transaction sale_payload d)
              else
                (case one_row (read_holdings d ex base) of
                   Inl e \<Rightarrow> (Some e, d)
                 | Inr (i, base_holding) \<Rightarrow>
                   let d1 = update_holding i (adjust_free base_holding (- base_bid)) d
                   in (case one_row (read_holdings d1 ex quote) of
                         Inl e \<Rightarrow> (Some e, d1)
                       | Inr (j, quote_holding) \<Rightarrow>
                           (None,
                            create_transaction sale_payload
                              (update_holding j (adjust_free quote_holding quote_vol) d1))))))"

subsection \<open>Classification and the order of the pairs\<close>

text \<open>What \<^verbatim>\<open>analyze_rsi\<close> returns: the indicator values, most recent first, and the
  two flags.\<close>

record indicator_result =
  rsi_values :: "rat list"
  is_hot :: bool
  is_cold :: bool

text \<open>The loop over the markets of one exchange. The analysis collaborator is a parameter:
  \<open>analyze ex market_pair\<close> is \<open>None\<close> where the call raises
  \<^verbatim>\<open>ccxt.NetworkError\<close>, and that pair is skipped.\<close>

definition classify_markets ::
  "(string \<Rightarrow> string \<Rightarrow> indicator_result option) \<Rightarrow> string \<Rightarrow> string list \<Rightarrow>
   (string \<times> indicator_result) list" where
  "classify_markets analyze ex markets =
     fold (\<lambda>market_pair rsi. case analyze ex market_pair of
                                 None \<Rightarrow> rsi
                               | Some r \<Rightarrow> AList.update market_pair r rsi) markets []"

text \<open>The sort key \<^verbatim>\<open>rsi_data[exchange][x]['values'][0]\<close>.\<close>

definition recent_value :: "(string \<times> indicator_result) list \<Rightarrow> string \<Rightarrow> rat" where
  "recent_value rsi x =
     (case map_of rsi x of
        None \<Rightarrow> 0
      | Some r \<Rightarrow> (case rsi_values r of [] \<Rightarrow> 0 | v # _ \<Rightarrow> v))"

text \<open>\<^verbatim>\<open>sorted(rsi_data[exchange], key=...)\<close>: the keys of the dictionary, sorted
  by the key function; Python's sort is stable and ascending, as \<open>sort_key\<close> is. The key
  function raises IndexError on an empty list of values, which the guard returns; past the
  guard \<open>recent_value\<close> never takes one of its default branches.\<close>

definition rsi_sorted_pairs :: "(string \<times> indicator_result) list \<Rightarrow> error + string list" where
  "rsi_sorted_pairs rsi =
     (if list_ex (\<lambda>e. rsi_values (snd e) = []) rsi then Inl IndexError
      else Inr (sort_key (recent_value rsi) (map fst rsi)))"

subsection \<open>The sweep of open orders\<close>

record open_order =
  order_id :: string
  timestamp :: rat

text \<open>The two kinds of Python value that meet in the comparison of the sweep: a
  \<^verbatim>\<open>datetime\<close> (seconds since the epoch) and a \<^verbatim>\<open>str\<close>.\<close>

datatype pyval = Datetime rat | Str string

text \<open>\<^verbatim>\<open>a > b\<close> for a datetime \<open>a\<close>: defined against another datetime only; against a
  string Python raises TypeError.\<close>

definition datetime_gt :: "rat \<Rightarrow> pyval \<Rightarrow> error + bool" where
  "datetime_gt a b = (case b of Datetime t \<Rightarrow> Inr (a > t) | Str _ \<Rightarrow> Inl TypeError)"

text \<open>The loop over the orders of one exchange. \<open>strftime_c\<close> stands for
  \<^verbatim>\<open>datetime.fromtimestamp(ts).strftime('%c')\<close>, \<open>now\<close> for
  \<^verbatim>\<open>datetime.now()\<close>; the list accumulated is the calls of
  \<^verbatim>\<open>cancel_order(exchange, order['id'])\<close>.\<close>

fun sweep_orders ::
  "behaviour_config \<Rightarrow> (rat \<Rightarrow> string) \<Rightarrow> rat \<Rightarrow> string \<Rightarrow> open_order list \<Rightarrow>
   (string \<times> string) list \<Rightarrow> error option \<times> (string \<times> string) list" where
  "sweep_orders cfg strftime_c now ex [] cancelled = (None, cancelled)"
| "sweep_orders cfg strftime_c now ex (order # rest) cancelled =
     (let order_time = Str (strftime_c (timestamp order));
          time_to_hold = now - 3600 * open_order_max_hours cfg
      in if mode cfg = ''live''
         then (case datetime_gt time_to_hold order_time of
                 Inl e \<Rightarrow> (Some e, cancelled)
               | Inr stale \<Rightarrow>
                   sweep_orders cfg strftime_c now ex rest
                     (if stale then cancelled @ [(ex, order_id order)] else cancelled))
         else sweep_orders cfg strftime_c now ex rest cancelled)"

fun sweep_exchanges ::
  "behaviour_config \<Rightarrow> (rat \<Rightarrow> string) \<Rightarrow> rat \<Rightarrow> (string \<times> open_order list) list \<Rightarrow>
   (string \<times> string) list \<Rightarrow> error option \<times> (string \<times> string) list" where
  "sweep_exchanges cfg strftime_c now [] cancelled = (None, cancelled)"
| "sweep_exchanges cfg strftime_c now (eo # rest) cancelled =
     (case sweep_orders cfg strftime_c now (fst eo) (snd eo) cancelled of
        (Some e, cancelled') \<Rightarrow> (Some e, cancelled')
      | (None, cancelled') \<Rightarrow> sweep_exchanges cfg strftime_c now rest cancelled')"

subsection \<open>Reconciliation of the holdings table\<close>

text \<open>What \<^verbatim>\<open>get_account_markets(exchange)\<close> returns: three dictionaries keyed by
  symbol.\<close>

record account_markets =
  acc_free :: "(string \<times> rat) list"
  acc_used :: "(string \<times> rat) list"
  acc_total :: "(string \<times> rat) list"

text \<open>The three subscripts \<^verbatim>\<open>['free'][symbol]\<close>, \<^verbatim>\<open>['used'][symbol]\<close>,
  \<^verbatim>\<open>['total'][symbol]\<close>; a missing key raises KeyError.\<close>

definition account_volumes :: "account_markets \<Rightarrow> string \<Rightarrow> error + volumes" where
  "account_volumes acct smb =
     (case map_of (acc_free acct) smb of
        None \<Rightarrow> Inl KeyError
      | Some f \<Rightarrow>
        (case map_of (acc_used acct) smb of
           None \<Rightarrow> Inl KeyError
         | Some u \<Rightarrow>
           (case map_of (acc_total acct) smb of
              None \<Rightarrow> Inl KeyError
            | Some t \<Rightarrow> Inr \<lparr>volume_free = f, volume_used = u, volume_total = t\<rparr>)))"

text \<open>\<^verbatim>\<open>__create_holdings\<close>: the inner loop over the symbols of one account, and the
  loop over the exchanges.\<close>

fun create_rows :: "string \<Rightarrow> account_markets \<Rightarrow> string list \<Rightarrow> db \<Rightarrow> error option \<times> db" where
  "create_rows ex acct [] d = (None, d)"
| "create_rows ex acct (smb # rest) d =
     (case account_volumes acct smb of
        Inl e \<Rightarrow> (Some e, d)
      | Inr v \<Rightarrow>
          create_rows ex acct rest
            (create_holding
               \<lparr>volume_free = volume_free v, volume_used = volume_used v,
                volume_total = volume_total v, exchange = ex, symbol = smb\<rparr> d))"

fun create_holdings ::
  "(string \<Rightarrow> account_markets) \<Rightarrow> string list \<Rightarrow> db \<Rightarrow> error option \<times> db" where
  "create_holdings get_account_markets [] d = (None, d)"
| "create_holdings get_account_markets (ex # rest) d =
     (let user_account_markets = get_account_markets ex
      in case create_rows ex user_account_markets (map fst (acc_free user_account_markets)) d of
           (Some e, d') \<Rightarrow> (Some e, d')
         | (None, d') \<Rightarrow> create_holdings get_account_markets rest d')"

text \<open>\<^verbatim>\<open>__update_holdings\<close>: every row of the table takes the three volumes the
  exchange reports for its symbol. The source fetches the account of an exchange once and
  keeps it in a dictionary; the collaborator is a function here, so the cache does not
  show.\<close>

fun update_rows ::
  "(string \<Rightarrow> account_markets) \<Rightarrow> (nat \<times> holding) list \<Rightarrow> db \<Rightarrow> error option \<times> db" where
  "update_rows get_account_markets [] d = (None, d)"
| "update_rows get_account_markets (r # rest) d =
     (case account_volumes (get_account_markets (exchange (snd r))) (symbol (snd r)) of
        Inl e \<Rightarrow> (Some e, d)
      | Inr v \<Rightarrow>
          update_rows get_account_markets rest
            (update_holding (fst r)
               ((snd r)\<lparr>volume_free := volume_free v, volume_used := volume_used v,
                        volume_total := volume_total v\<rparr>) d))"

definition update_holdings :: "(string \<Rightarrow> account_markets) \<Rightarrow> db \<Rightarrow> error option \<times> db" where
  "update_holdings get_account_markets d =
     update_rows get_account_markets (enumerate 0 (holdings d)) d"

text \<open>Lines 99 to 107 of \<^verbatim>\<open>run\<close>. The dictionary read back afterwards is
  \<open>get_holdings\<close> of the database returned.\<close>

definition reconcile ::
  "behaviour_config \<Rightarrow> (string \<Rightarrow> account_markets) \<Rightarrow> string list \<Rightarrow> db \<Rightarrow> error option \<times> db" where
  "reconcile cfg get_account_markets exchanges d =
     (if get_holdings d = [] then create_holdings get_account_markets exchanges d
      else if mode cfg = ''live'' then update_holdings get_account_markets d
      else (None, d))"

subsection \<open>The decision loop\<close>

text \<open>\<^verbatim>\<open>market_pair.split('/')\<close>, and the unpacking of its result into two names,
  which raises ValueError unless there are exactly two parts.\<close>

fun split_on :: "char \<Rightarrow> string \<Rightarrow> string list" where
  "split_on c [] = [[]]"
| "split_on c (x # xs) =
     (if x = c then [] # split_on c xs
      else (case split_on c xs of [] \<Rightarrow> [[x]] | w # ws \<Rightarrow> (x # w) # ws))"

definition split_pair :: "string \<Rightarrow> error + (string \<times> string)" where
  "split_pair market_pair =
     (case split_on CHR ''/'' market_pair of
        [base, quote] \<Rightarrow> Inr (base, quote)
      | _ \<Rightarrow> Inl ValueError)"

datatype decision = BUY | SELL | NO_ACTION

text \<open>The conditions of lines 113 to 146: which call, if any, the loop makes for a pair.
  The subscripts \<^verbatim>\<open>current_holdings[exchange][quote_symbol]\<close> of the hot branch and
  \<^verbatim>\<open>current_holdings[exchange]\<close> of the cold branch raise KeyError on a missing
  key; the base symbol is tested with \<^verbatim>\<open>in\<close> before it is read.\<close>

definition decide ::
  "indicator_result \<Rightarrow> string \<Rightarrow> string \<Rightarrow> string \<Rightarrow> current_holdings \<Rightarrow> error + decision" where
  "decide m base quote ex ch =
     (if is_hot m then
        (case lookup_holding ch ex quote of
           Inl e \<Rightarrow> Inl e
         | Inr q \<Rightarrow>
           if \<not> volume_total q = 0 then
             (case map_of ch ex of
                None \<Rightarrow> Inl KeyError
              | Some hs \<Rightarrow>
                (case map_of hs base of
                   None \<Rightarrow> Inr BUY
                 | Some b \<Rightarrow> if volume_total b = 0 then Inr BUY else Inr NO_ACTION))
           else Inr NO_ACTION)
      else if is_cold m then
        (case map_of ch ex of
           None \<Rightarrow> Inl KeyError
         | Some hs \<Rightarrow>
           (case map_of hs base of
              None \<Rightarrow> Inr NO_ACTION
            | Some b \<Rightarrow> if \<not> volume_free b = 0 then Inr SELL else Inr NO_ACTION))
      else Inr NO_ACTION)"

text \<open>The body of the inner loop for one pair: the decision, the call, and
  \<^verbatim>\<open>current_holdings\<close> read again after a call that returned.\<close>

definition visit_pair ::
  "behaviour_config \<Rightarrow> (string \<Rightarrow> string \<Rightarrow> order_book) \<Rightarrow> string \<Rightarrow>
   (string \<times> indicator_result) list \<Rightarrow> string \<Rightarrow> current_holdings \<Rightarrow> db \<Rightarrow>
   error option \<times> current_holdings \<times> db" where
  "visit_pair cfg get_order_book ex markets market_pair ch d =
     (case split_pair market_pair of
        Inl e \<Rightarrow> (Some e, ch, d)
      | Inr (base, quote) \<Rightarrow>
        (case map_of markets market_pair of
           None \<Rightarrow> (Some KeyError, ch, d)
         | Some m \<Rightarrow>
           (case decide m base quote ex ch of
              Inl e \<Rightarrow> (Some e, ch, d)
            | Inr BUY \<Rightarrow>
                (case buy cfg get_order_book base quote market_pair ex ch d of
                   (Some e, d') \<Rightarrow> (Some e, ch, d')
                 | (None, d') \<Rightarrow> (None, get_holdings d', d'))
            | Inr SELL \<Rightarrow>
                (case sell cfg get_order_book base quote market_pair ex ch d of
                   (Some e, d') \<Rightarrow> (Some e, ch, d')
                 | (None, d') \<Rightarrow> (None, get_holdings d', d'))
            | Inr NO_ACTION \<Rightarrow> (None, ch, d))))"

fun visit_pairs ::
  "behaviour_config \<Rightarrow> (string \<Rightarrow> string \<Rightarrow> order_book) \<Rightarrow> string \<Rightarrow>
   (string \<times> indicator_result) list \<Rightarrow> string list \<Rightarrow> current_holdings \<Rightarrow> db \<Rightarrow>
   error option \<times> current_holdings \<times> db" where
  "visit_pairs cfg get_order_book ex markets [] ch d = (None, ch, d)"
| "visit_pairs cfg get_order_book ex markets (market_pair # rest) ch d =
     (case visit_pair cfg get_order_book ex markets market_pair ch d of
        (Some e, ch', d') \<Rightarrow> (Some e, ch', d')
      | (None, ch', d') \<Rightarrow> visit_pairs cfg get_order_book ex markets rest ch' d')"

text \<open>The outer loop over \<^verbatim>\<open>rsi_data.items()\<close>; \<open>sorted_pairs\<close> is the dictionary
  \<^verbatim>\<open>rsi_sorted_pairs\<close>.\<close>

fun visit_exchanges ::
  "behaviour_config \<Rightarrow> (string \<Rightarrow> string \<Rightarrow> order_book) \<Rightarrow>
   (string \<times> string list) list \<Rightarrow> (string \<times> (string \<times> indicator_result) list) list \<Rightarrow>
   current_holdings \<Rightarrow> db \<Rightarrow> error option \<times> current_holdings \<times> db" where
  "visit_exchanges cfg get_order_book sorted_pairs [] ch d = (None, ch, d)"
| "visit_exchanges cfg get_order_book sorted_pairs (em # rest) ch d =
     (case map_of sorted_pairs (fst em) of
        None \<Rightarrow> (Some KeyError, ch, d)
      | Some pairs \<Rightarrow>
        (case visit_pairs cfg get_order_book (fst em) (snd em) pairs ch d of
           (Some e, ch', d') \<Rightarrow> (Some e, ch', d')
         | (None, ch', d') \<Rightarrow> visit_exchanges cfg get_order_book sorted_pairs rest ch' d'))"

subsection \<open>The cycle\<close>

text \<open>The first loop of \<^verbatim>\<open>run\<close>: for each exchange its classified pairs and their
  sorted order, added to the two dictionaries.\<close>

fun classify_exchanges ::
  "(string \<Rightarrow> string \<Rightarrow> indicator_result option) \<Rightarrow> (string \<times> string list) list \<Rightarrow>
   (string \<times> (string \<times> indicator_result) list) list \<Rightarrow> (string \<times> string list) list \<Rightarrow>
   error + ((string \<times> (string \<times> indicator_result) list) list \<times> (string \<times> string list) list)" where
  "classify_exchanges analyze [] rsi_data sorted_pairs = Inr (rsi_data, sorted_pairs)"
| "classify_exchanges analyze (em # rest) rsi_data sorted_pairs =
     (let rsi = classify_markets analyze (fst em) (snd em)
      in case rsi_sorted_pairs rsi of
           Inl e \<Rightarrow> Inl e
         | Inr pairs \<Rightarrow>
             classify_exchanges analyze rest
               (AList.update (fst em) rsi rsi_data) (AList.update (fst em) pairs sorted_pairs))"

text \<open>The collaborators of one cycle: the market data (per exchange, its pairs), the
  analysis, the open orders, the clock and its formatting, the accounts, the exchanges and
  the order books.\<close>

record collaborators =
  market_data :: "(string \<times> string list) list"
  analyze :: "string \<Rightarrow> string \<Rightarrow> indicator_result option"
  open_orders :: "(string \<times> open_order list) list"
  strftime_c :: "rat \<Rightarrow> string"
  now :: rat
  get_account_markets :: "string \<Rightarrow> account_markets"
  exchanges :: "string list"
  get_order_book :: "string \<Rightarrow> string \<Rightarrow> order_book"

text \<open>\<^verbatim>\<open>run\<close>: the result is the exception that ended the cycle, if any, the calls
  of \<^verbatim>\<open>cancel_order\<close> made, and the database.\<close>

definition run ::
  "behaviour_config \<Rightarrow> collaborators \<Rightarrow> db \<Rightarrow> error option \<times> (string \<times> string) list \<times> db" where
  "run cfg c d =
     (case classify_exchanges (analyze c) (market_data c) [] [] of
        Inl e \<Rightarrow> (Some e, [], d)
      | Inr (rsi_data, sorted_pairs) \<Rightarrow>
        (case sweep_exchanges cfg (strftime_c c) (now c) (open_orders c) [] of
           (Some e, cancelled) \<Rightarrow> (Some e, cancelled, d)
         | (None, cancelled) \<Rightarrow>
           (case reconcile cfg (get_account_markets c) (exchanges c) d of
              (Some e, d1) \<Rightarrow> (Some e, cancelled, d1)
            | (None, d1) \<Rightarrow>
              (case visit_exchanges cfg (get_order_book c) sorted_pairs rsi_data
                      (get_holdings d1) d1 of
                 (e, ch, d2) \<Rightarrow> (e, cancelled, d2)))))"

subsection \<open>Predicates of the properties\<close>

text \<open>The invariant of a holding.\<close>

definition balanced :: "holding \<Rightarrow> bool" where
  "balanced h \<longleftrightarrow> volume_total h = volume_free h + volume_used h"

text \<open>Every row of the table \<open>new\<close> is balanced, unless it is the row the table \<open>old\<close>
  had at the same position: the rows an operation touched are balanced.\<close>

definition touched_balanced :: "holding list \<Rightarrow> holding list \<Rightarrow> bool" where
  "touched_balanced old new \<longleftrightarrow>
     list_all (\<lambda>r. balanced (snd r) \<or> (fst r < length old \<and> old ! fst r = snd r))
       (enumerate 0 new)"

text \<open>An account whose reported total is the sum of the reported free and used volumes,
  for each of its symbols.\<close>

definition consistent :: "account_markets \<Rightarrow> bool" where
  "consistent acct \<longleftrightarrow>
     list_all (\<lambda>smb. case account_volumes acct smb of
                       Inl _ \<Rightarrow> True
                     | Inr v \<Rightarrow> volume_total v = volume_free v + volume_used v)
       (map fst (acc_free acct))"

text \<open>The free volume that the table holds of an asset on an exchange.\<close>

definition asset_free :: "db \<Rightarrow> string \<Rightarrow> string \<Rightarrow> rat" where
  "asset_free d ex smb = sum_list (map (\<lambda>r. volume_free (snd r)) (read_holdings d ex smb))"

text \<open>The outcome \<open>r\<close> of a trade started on the database \<open>d\<close> is all or nothing: the
  database is as it was, or the operation returned, one transaction was recorded, and the
  free volumes of the base and of the quote asset moved by the volumes of that record
  (\<open>side_sign\<close> is 1 for a buy and -1 for a sell).\<close>

definition all_or_nothing ::
  "rat \<Rightarrow> string \<Rightarrow> string \<Rightarrow> string \<Rightarrow> db \<Rightarrow> error option \<times> db \<Rightarrow> bool" where
  "all_or_nothing side_sign ex base quote d r \<longleftrightarrow>
     snd r = d \<or>
     (fst r = None \<and> transactions (snd r) \<noteq> [] \<and>
      butlast (transactions (snd r)) = transactions d \<and>
      (let t = last (transactions (snd r))
       in asset_free (snd r) ex base = asset_free d ex base + side_sign * base_volume t \<and>
          asset_free (snd r) ex quote = asset_free d ex quote - side_sign * quote_volume t))"

subsection \<open>Concrete inputs\<close>

text \<open>A configuration in simulation mode, order books and small ledgers, used to run the
  definitions on concrete cases.\<close>

definition example_config :: behaviour_config where
  "example_config = \<lparr>mode = ''backtest'', trade_limits = [(''USDT'', 40)], open_order_max_hours = 1\<rparr>"

definition example_books :: "string \<Rightarrow> string \<Rightarrow> order_book" where
  "example_books market_pair ex = \<lparr>asks = [(2, 1)], bids = [(5, 1)]\<rparr>"

definition empty_books :: "string \<Rightarrow> string \<Rightarrow> order_book" where
  "empty_books market_pair ex = \<lparr>asks = [], bids = []\<rparr>"

definition usdt_ledger :: db where
  "usdt_ledger =
     \<lparr>holdings = [\<lparr>volume_free = 100, volume_used = 0, volume_total = 100,
                   exchange = ''binance'', symbol = ''USDT''\<rparr>],
      transactions = []\<rparr>"

definition eth_ledger :: db where
  "eth_ledger =
     \<lparr>holdings = [\<lparr>volume_free = 10, volume_used = 0, volume_total = 10,
                   exchange = ''binance'', symbol = ''ETH''\<rparr>],
      transactions = []\<rparr>"

definition eth_btc_ledger :: db where
  "eth_btc_ledger =
     \<lparr>holdings = [\<lparr>volume_free = 10, volume_used = 0, volume_total = 10,
                   exchange = ''binance'', symbol = ''ETH''\<rparr>,
                  \<lparr>volume_free = 1, volume_used = 0, volume_total = 1,
                   exchange = ''binance'', symbol = ''BTC''\<rparr>],
      transactions = []\<rparr>"

definition empty_ledger :: db where
  "empty_ledger = \<lparr>holdings = [], transactions = []\<rparr>"

definition live_config :: behaviour_config where
  "live_config = \<lparr>mode = ''live'', trade_limits = [], open_order_max_hours = 1\<rparr>"

definition sound_account :: "string \<Rightarrow> account_markets" where
  "sound_account ex =
     \<lparr>acc_free = [(''USDT'', 100)], acc_used = [(''USDT'', 0)], acc_total = [(''USDT'', 100)]\<rparr>"

definition skewed_account :: "string \<Rightarrow> account_markets" where
  "skewed_account ex =
     \<lparr>acc_free = [(''BTC'', 1)], acc_used = [(''BTC'', 1)], acc_total = [(''BTC'', 5)]\<rparr>"

definition stale_order :: open_order where
  "stale_order = \<lparr>order_id = ''o1'', timestamp = 0\<rparr>"

definition c_format :: "rat \<Rightarrow> string" where
  "c_format t = ''Thu Jan  1 00:00:00 1970''"

definition hot_result :: indicator_result where
  "hot_result = \<lparr>rsi_values = [25], is_hot = True, is_cold = False\<rparr>"

definition cold_result :: indicator_result where
  "cold_result = \<lparr>rsi_values = [80], is_hot = False, is_cold = True\<rparr>"

definition locked_quote_snapshot :: current_holdings where
  "locked_quote_snapshot =
     [(''binance'', [(''USDT'', \<lparr>volume_free = 0, volume_used = 5, volume_total = 5\<rparr>)])]"

definition held_base_snapshot :: current_holdings where
  "held_base_snapshot =
     [(''binance'', [(''USDT'', \<lparr>volume_free = 100, volume_used = 0, volume_total = 100\<rparr>),
                    (''BTC'', \<lparr>volume_free = 3, volume_used = 0, volume_total = 3\<rparr>)])]"

definition eth_only_account :: "string \<Rightarrow> account_markets" where
  "eth_only_account ex =
     \<lparr>acc_free = [(''ETH'', 10)], acc_used = [(''ETH'', 0)], acc_total = [(''ETH'', 10)]\<rparr>"

definition hot_cycle :: collaborators where
  "hot_cycle =
     \<lparr>market_data = [(''binance'', [''BTC/USDT''])],
      analyze = (\<lambda>ex market_pair. Some hot_result),
      open_orders = [],
      strftime_c = c_format,
      now = 1000000,
      get_account_markets = eth_only_account,
      exchanges = [''binance''],
      get_order_book = example_books\<rparr>"

definition abc_rsi :: "(string \<times> indicator_result) list" where
  "abc_rsi =
     [(''C/Q'', \<lparr>rsi_values = [70], is_hot = False, is_cold = True\<rparr>),
      (''A/Q'', \<lparr>rsi_values = [30], is_hot = True, is_cold = False\<rparr>),
      (''B/Q'', \<lparr>rsi_values = [45], is_hot = False, is_cold = False\<rparr>)]"

definition tie_rsi :: "(string \<times> indicator_result) list" where
  "tie_rsi =
     [(''B/Q'', \<lparr>rsi_values = [30], is_hot = True, is_cold = False\<rparr>),
      (''A/Q'', \<lparr>rsi_values = [30], is_hot = True, is_cold = False\<rparr>)]"

definition cold_cycle :: collaborators where
  "cold_cycle =
     \<lparr>market_data = [(''binance'', [''ETH/BTC''])],
      analyze = (\<lambda>ex market_pair. Some cold_result),
      open_orders = [],
      strftime_c = c_format,
      now = 1000000,
      get_account_markets = eth_only_account,
      exchanges = [''binance''],
      get_order_book = example_books\<rparr>"

section \<open>Properties\<close>

subsection \<open>Queries on the holdings table\<close>

lemma filter_enumerate_snd:
  "map snd (filter (\<lambda>r. P (snd r)) (enumerate n xs)) = filter P xs"
  by (induction xs arbitrary: n) auto

lemma read_holdings_rows:
  "map snd (read_holdings d ex s) = filter (\<lambda>h. exchange h = ex \<and> symbol h = s) (holdings d)"
  unfolding read_holdings_def by (rule filter_enumerate_snd)

lemma read_holdings_mem:
  "(i, h) \<in> set (read_holdings d ex s) \<Longrightarrow>
     i < length (holdings d) \<and> holdings d ! i = h \<and> exchange h = ex \<and> symbol h = s"
  by (auto simp: read_holdings_def in_set_enumerate_eq)

lemma read_holdings_create:
  "read_holdings (create_holding h d) ex s =
     read_holdings d ex s @
       (if exchange h = ex \<and> symbol h = s then [(length (holdings d), h)] else [])"
  by (simp add: read_holdings_def create_holding_def enumerate_append_eq)

lemma enumerate_fst_ge: "r \<in> set (enumerate n xs) \<Longrightarrow> n \<le> fst r"
  by (auto simp: in_set_enumerate_eq)

lemma filter_enumerate_update:
  "i < length xs \<Longrightarrow> K h' = K (xs ! i) \<Longrightarrow>
   filter (\<lambda>r. K (snd r) = k) (enumerate n (xs[i := h'])) =
   map (\<lambda>r. if fst r = n + i then (fst r, h') else r)
       (filter (\<lambda>r. K (snd r) = k) (enumerate n xs))"
proof (induction xs arbitrary: i n)
  case Nil
  then show ?case by simp
next
  case (Cons x xs)
  show ?case
  proof (cases i)
    case 0
    have "map (\<lambda>r. if fst r = n then (fst r, h') else r)
            (filter (\<lambda>r. K (snd r) = k) (enumerate (Suc n) xs)) =
          filter (\<lambda>r. K (snd r) = k) (enumerate (Suc n) xs)"
      by (rule map_idI) (auto dest: enumerate_fst_ge)
    with 0 Cons.prems show ?thesis by simp
  next
    case (Suc i')
    with Cons.prems have "i' < length xs" "K h' = K (xs ! i')" by simp_all
    from Cons.IH[OF this, of "Suc n"] Suc show ?thesis by simp
  qed
qed

lemma read_holdings_update:
  assumes "i < length (holdings d)"
    and "exchange h' = exchange (holdings d ! i)" and "symbol h' = symbol (holdings d ! i)"
  shows "read_holdings (update_holding i h' d) ex s =
         map (\<lambda>r. if fst r = i then (fst r, h') else r) (read_holdings d ex s)"
proof -
  let ?K = "\<lambda>h. (exchange h, symbol h)"
  have "filter (\<lambda>r. ?K (snd r) = (ex, s)) (enumerate 0 ((holdings d)[i := h'])) =
        map (\<lambda>r. if fst r = 0 + i then (fst r, h') else r)
          (filter (\<lambda>r. ?K (snd r) = (ex, s)) (enumerate 0 (holdings d)))"
    using assms by (intro filter_enumerate_update) simp_all
  then show ?thesis by (simp add: read_holdings_def update_holding_def)
qed

lemma read_holdings_update_other:
  assumes "i < length (holdings d)"
    and "exchange h' = exchange (holdings d ! i)" and "symbol h' = symbol (holdings d ! i)"
    and "\<not> (exchange h' = ex \<and> symbol h' = s)"
  shows "read_holdings (update_holding i h' d) ex s = read_holdings d ex s"
proof -
  have "map (\<lambda>r. if fst r = i then (fst r, h') else r) (read_holdings d ex s) =
        read_holdings d ex s"
  proof (rule map_idI)
    fix r assume "r \<in> set (read_holdings d ex s)"
    then have "(fst r, snd r) \<in> set (read_holdings d ex s)" by simp
    from read_holdings_mem[OF this] assms show "(if fst r = i then (fst r, h') else r) = r"
      by auto
  qed
  with read_holdings_update[OF assms(1-3)] show ?thesis by simp
qed

lemma read_holdings_update_same:
  assumes "read_holdings d ex s = [(i, h)]" and "exchange h' = ex" and "symbol h' = s"
  shows "read_holdings (update_holding i h' d) ex s = [(i, h')]"
proof -
  have "(i, h) \<in> set (read_holdings d ex s)" using assms(1) by simp
  from read_holdings_mem[OF this] assms
  have "i < length (holdings d)" "exchange h' = exchange (holdings d ! i)"
    "symbol h' = symbol (holdings d ! i)" by simp_all
  from read_holdings_update[OF this] assms(1) show ?thesis by simp
qed

lemma read_holdings_create_transaction [simp]:
  "read_holdings (create_transaction t d) ex s = read_holdings d ex s"
  by (simp add: read_holdings_def create_transaction_def)

lemma adjust_free_keys [simp]:
  "exchange (adjust_free h x) = exchange h" "symbol (adjust_free h x) = symbol h"
  by (simp_all add: adjust_free_def)

lemma holdings_simps [simp]:
  "holdings (create_transaction t d) = holdings d"
  "holdings (update_holding i h d) = (holdings d)[i := h]"
  "holdings (create_holding h d) = holdings d @ [h]"
  by (simp_all add: create_transaction_def update_holding_def create_holding_def)

lemma lookup_add_row:
  "lookup_holding (add_row r hs) ex s =
     (if exchange r = ex \<and> symbol r = s then Inr (row_volumes r) else lookup_holding hs ex s)"
  by (auto simp: add_row_def lookup_holding_def Let_def update_conv' split: option.splits)

lemma lookup_fold_add_row:
  "lookup_holding (fold add_row rows hs) ex s =
     (case filter (\<lambda>h. exchange h = ex \<and> symbol h = s) rows of
        [] \<Rightarrow> lookup_holding hs ex s
      | m # ms \<Rightarrow> Inr (row_volumes (last (m # ms))))"
  by (induction rows arbitrary: hs) (auto simp: lookup_add_row split: list.splits)

lemma lookup_get_holdings_one:
  "read_holdings d ex s = [(i, h)] \<Longrightarrow> lookup_holding (get_holdings d) ex s = Inr (row_volumes h)"
proof -
  assume "read_holdings d ex s = [(i, h)]"
  with read_holdings_rows[of d ex s]
  have "filter (\<lambda>h. exchange h = ex \<and> symbol h = s) (holdings d) = [h]" by simp
  then show ?thesis by (simp add: get_holdings_def lookup_fold_add_row)
qed

lemma lookup_get_holdings_none:
  "read_holdings d ex s = [] \<Longrightarrow> lookup_holding (get_holdings d) ex s = Inl KeyError"
proof -
  assume "read_holdings d ex s = []"
  with read_holdings_rows[of d ex s]
  have "filter (\<lambda>h. exchange h = ex \<and> symbol h = s) (holdings d) = []" by simp
  moreover have "lookup_holding [] ex s = Inl KeyError" by (simp add: lookup_holding_def)
  ultimately show ?thesis by (simp add: get_holdings_def lookup_fold_add_row)
qed

subsection \<open>The invariant of a holding\<close>

text \<open>The rows that an operation writes are followed through the table by position.\<close>

lemma touched_balanced_iff:
  "touched_balanced old new \<longleftrightarrow>
     (\<forall>i<length new. balanced (new ! i) \<or> (i < length old \<and> old ! i = new ! i))"
proof
  assume l: "touched_balanced old new"
  show "\<forall>i<length new. balanced (new ! i) \<or> (i < length old \<and> old ! i = new ! i)"
  proof (intro allI impI)
    fix i assume "i < length new"
    then have "(i, new ! i) \<in> set (enumerate 0 new)" by (simp add: in_set_enumerate_eq)
    with l show "balanced (new ! i) \<or> (i < length old \<and> old ! i = new ! i)"
      unfolding touched_balanced_def list_all_iff by fastforce
  qed
next
  assume "\<forall>i<length new. balanced (new ! i) \<or> (i < length old \<and> old ! i = new ! i)"
  then show "touched_balanced old new"
    unfolding touched_balanced_def list_all_iff by (auto simp: in_set_enumerate_eq)
qed

lemma touched_balanced_refl: "touched_balanced xs xs"
  by (simp add: touched_balanced_iff)

lemma touched_balanced_update:
  "touched_balanced xs ys \<Longrightarrow> balanced h \<Longrightarrow> touched_balanced xs (ys[i := h])"
  unfolding touched_balanced_iff
proof (intro allI impI)
  fix k
  assume a: "\<forall>i<length ys. balanced (ys ! i) \<or> (i < length xs \<and> xs ! i = ys ! i)"
    and h: "balanced h" and k: "k < length (ys[i := h])"
  show "balanced (ys[i := h] ! k) \<or> (k < length xs \<and> xs ! k = ys[i := h] ! k)"
  proof (cases "k = i")
    case True
    with k h show ?thesis by simp
  next
    case False
    with a k show ?thesis by simp
  qed
qed

lemma touched_balanced_append:
  "touched_balanced xs ys \<Longrightarrow> balanced h \<Longrightarrow> touched_balanced xs (ys @ [h])"
  unfolding touched_balanced_iff
proof (intro allI impI)
  fix k
  assume a: "\<forall>i<length ys. balanced (ys ! i) \<or> (i < length xs \<and> xs ! i = ys ! i)"
    and h: "balanced h" and k: "k < length (ys @ [h])"
  show "balanced ((ys @ [h]) ! k) \<or> (k < length xs \<and> xs ! k = (ys @ [h]) ! k)"
  proof (cases "k < length ys")
    case True
    with a show ?thesis by (simp add: nth_append)
  next
    case False
    with k have "k = length ys" by simp
    with h show ?thesis by simp
  qed
qed

lemma balanced_adjust_free: "balanced (adjust_free h x)"
  by (simp add: balanced_def adjust_free_def)

lemma balanced_new_row:
  "balanced \<lparr>volume_free = x, volume_used = 0, volume_total = x, exchange = ex, symbol = s\<rparr>"
  by (simp add: balanced_def)

lemma buy_touched:
  "touched_balanced (holdings d) (holdings (snd (buy cfg gob base quote market_pair ex ch d)))"
  by (auto simp: buy_def Let_def touched_balanced_refl balanced_adjust_free balanced_new_row
      intro!: touched_balanced_update touched_balanced_append
      split: option.splits sum.splits prod.splits)

lemma sell_touched:
  "touched_balanced (holdings d) (holdings (snd (sell cfg gob base quote market_pair ex ch d)))"
  by (auto simp: sell_def Let_def touched_balanced_refl balanced_adjust_free
      intro!: touched_balanced_update
      split: option.splits sum.splits prod.splits)

lemma consistent_volumes:
  "consistent acct \<Longrightarrow> account_volumes acct s = Inr v \<Longrightarrow>
     volume_total v = volume_free v + volume_used v"
proof -
  assume c: "consistent acct" and v: "account_volumes acct s = Inr v"
  from v have "s \<in> set (map fst (acc_free acct))"
    by (auto simp: account_volumes_def split: option.splits dest: map_of_SomeD intro: rev_image_eqI)
  with c v show ?thesis by (auto simp: consistent_def list_all_iff)
qed

lemma create_rows_touched:
  "consistent acct \<Longrightarrow> touched_balanced old (holdings d) \<Longrightarrow>
     touched_balanced old (holdings (snd (create_rows ex acct ss d)))"
proof (induction ss arbitrary: d)
  case Nil
  then show ?case by simp
next
  case (Cons s ss)
  show ?case
  proof (cases "account_volumes acct s")
    case (Inl e)
    with Cons.prems show ?thesis by simp
  next
    case (Inr v)
    from consistent_volumes[OF Cons.prems(1) Inr]
    have "balanced \<lparr>volume_free = volume_free v, volume_used = volume_used v,
                    volume_total = volume_total v, exchange = ex, symbol = s\<rparr>"
      by (simp add: balanced_def)
    with Cons.prems(2) have "touched_balanced old (holdings (create_holding
        \<lparr>volume_free = volume_free v, volume_used = volume_used v,
         volume_total = volume_total v, exchange = ex, symbol = s\<rparr> d))"
      by (simp add: touched_balanced_append)
    from Cons.IH[OF Cons.prems(1) this] Inr show ?thesis by simp
  qed
qed

lemma create_holdings_touched:
  "\<forall>e\<in>set exs. consistent (gam e) \<Longrightarrow> touched_balanced old (holdings d) \<Longrightarrow>
     touched_balanced old (holdings (snd (create_holdings gam exs d)))"
proof (induction exs arbitrary: d)
  case Nil
  then show ?case by simp
next
  case (Cons e exs)
  let ?r = "create_rows e (gam e) (map fst (acc_free (gam e))) d"
  from Cons.prems have t: "touched_balanced old (holdings (snd ?r))"
    by (simp add: create_rows_touched)
  obtain e1 d1 where r: "?r = (e1, d1)" by (cases ?r)
  with t have t1: "touched_balanced old (holdings d1)" by simp
  show ?case
  proof (cases e1)
    case None
    from Cons.prems(1) have "\<forall>e\<in>set exs. consistent (gam e)" by simp
    from Cons.IH[OF this t1] r None show ?thesis by (simp add: Let_def)
  next
    case (Some a)
    with t1 r show ?thesis by (simp add: Let_def)
  qed
qed

lemma update_rows_touched:
  "\<forall>r\<in>set rows. consistent (gam (exchange (snd r))) \<Longrightarrow> touched_balanced old (holdings d) \<Longrightarrow>
     touched_balanced old (holdings (snd (update_rows gam rows d)))"
proof (induction rows arbitrary: d)
  case Nil
  then show ?case by simp
next
  case (Cons r rows)
  show ?case
  proof (cases "account_volumes (gam (exchange (snd r))) (symbol (snd r))")
    case (Inl e)
    with Cons.prems show ?thesis by simp
  next
    case (Inr v)
    from Cons.prems(1) have "consistent (gam (exchange (snd r)))" by simp
    from consistent_volumes[OF this Inr]
    have "balanced ((snd r)\<lparr>volume_free := volume_free v, volume_used := volume_used v,
                        volume_total := volume_total v\<rparr>)"
      by (simp add: balanced_def)
    with Cons.prems(2) have "touched_balanced old (holdings (update_holding (fst r)
        ((snd r)\<lparr>volume_free := volume_free v, volume_used := volume_used v,
                 volume_total := volume_total v\<rparr>) d))"
      by (simp add: touched_balanced_update)
    from Cons.IH[OF _ this] Cons.prems(1) Inr show ?thesis by simp
  qed
qed

lemma update_holdings_touched:
  assumes "\<forall>h\<in>set (holdings d). consistent (gam (exchange h))"
  shows "touched_balanced (holdings d) (holdings (snd (update_holdings gam d)))"
proof -
  have "\<forall>r\<in>set (enumerate 0 (holdings d)). consistent (gam (exchange (snd r)))"
    using assms by (auto simp: in_set_enumerate_eq)
  then show ?thesis
    unfolding update_holdings_def
    by (rule update_rows_touched) (rule touched_balanced_refl)
qed

text \<open>Claim C1, as the code has it. Every row that a buy or a sell writes satisfies
  \<open>volume_total = volume_free + volume_used\<close>, whatever the outcome of the operation: both
  recompute the total from the two other volumes. The bootstrap and the live re-sync do
  not: they store the three volumes the exchange reports, so the rows they write are
  balanced when the accounts reported are.\<close>

theorem touched_holdings_balanced:
  "touched_balanced (holdings d) (holdings (snd (buy cfg gob base quote market_pair ex ch d))) \<and>
   touched_balanced (holdings d) (holdings (snd (sell cfg gob base quote market_pair ex ch d))) \<and>
   ((\<forall>e\<in>set exs. consistent (gam e)) \<longrightarrow>
      touched_balanced (holdings d) (holdings (snd (create_holdings gam exs d)))) \<and>
   ((\<forall>h\<in>set (holdings d). consistent (gam (exchange h))) \<longrightarrow>
      touched_balanced (holdings d) (holdings (snd (update_holdings gam d))))"
  by (simp add: buy_touched sell_touched create_holdings_touched update_holdings_touched
      touched_balanced_refl)

theorem touched_holdings_balanced_witness:
  "consistent (sound_account ''binance'') \<and>
   touched_balanced (holdings usdt_ledger)
     (holdings (snd (buy example_config example_books ''BTC'' ''USDT'' ''BTC/USDT'' ''binance''
        (get_holdings usdt_ledger) usdt_ledger))) \<and>
   touched_balanced (holdings usdt_ledger)
     (holdings (snd (sell example_config example_books ''BTC'' ''USDT'' ''BTC/USDT'' ''binance''
        (get_holdings usdt_ledger) usdt_ledger))) \<and>
   touched_balanced (holdings usdt_ledger)
     (holdings (snd (create_holdings sound_account [''binance''] usdt_ledger))) \<and>
   touched_balanced (holdings usdt_ledger)
     (holdings (snd (update_holdings sound_account usdt_ledger)))"
  using touched_holdings_balanced [of usdt_ledger example_config example_books "''BTC''"
      "''USDT''" "''BTC/USDT''" "''binance''" "get_holdings usdt_ledger" "[''binance'']"
      sound_account]
  by (simp add: consistent_def account_volumes_def sound_account_def usdt_ledger_def)

text \<open>Claim C1 as stated fails: where the exchange reports a total of 5 for a free volume
  of 1 and a used volume of 1, the bootstrap creates the row with these three values; the
  live re-sync overwrites a balanced row with them.\<close>

theorem bootstrap_copies_skewed_total:
  "reconcile example_config skewed_account [''binance''] empty_ledger =
     (None,
      \<lparr>holdings = [\<lparr>volume_free = 1, volume_used = 1, volume_total = 5,
                    exchange = ''binance'', symbol = ''BTC''\<rparr>],
       transactions = []\<rparr>) \<and>
   \<not> balanced \<lparr>volume_free = 1, volume_used = 1, volume_total = 5,
               exchange = ''binance'', symbol = ''BTC''\<rparr>"
  by (simp add: reconcile_def get_holdings_def empty_ledger_def skewed_account_def
      account_volumes_def create_holding_def balanced_def)

lemma resync_copies_skewed_total:
  "reconcile live_config skewed_account [''binance'']
     \<lparr>holdings = [\<lparr>volume_free = 2, volume_used = 0, volume_total = 2,
                   exchange = ''binance'', symbol = ''BTC''\<rparr>], transactions = []\<rparr> =
     (None,
      \<lparr>holdings = [\<lparr>volume_free = 1, volume_used = 1, volume_total = 5,
                    exchange = ''binance'', symbol = ''BTC''\<rparr>],
       transactions = []\<rparr>)"
  by (simp add: reconcile_def get_holdings_def add_row_def live_config_def skewed_account_def
      account_volumes_def update_holdings_def update_holding_def)

subsection \<open>The sweep of open orders\<close>

text \<open>In live mode the sweep compares the datetime \<^verbatim>\<open>time_to_hold\<close> with
  \<^verbatim>\<open>order_time\<close>, which \<^verbatim>\<open>strftime\<close> has made a string: the first open order
  met raises TypeError, and no order is cancelled. Outside live mode the sweep cancels
  nothing and returns.\<close>

lemma sweep_orders_live:
  "mode cfg = ''live'' \<Longrightarrow> orders \<noteq> [] \<Longrightarrow>
     sweep_orders cfg fmt t ex orders cancelled = (Some TypeError, cancelled)"
  by (cases orders) (simp_all add: datetime_gt_def)

lemma sweep_orders_simulation:
  "mode cfg \<noteq> ''live'' \<Longrightarrow> sweep_orders cfg fmt t ex orders cancelled = (None, cancelled)"
  by (induction orders) simp_all

lemma sweep_exchanges_simulation:
  "mode cfg \<noteq> ''live'' \<Longrightarrow> sweep_exchanges cfg fmt t oo cancelled = (None, cancelled)"
  by (induction oo) (simp_all add: sweep_orders_simulation)

lemma sweep_exchanges_live:
  "mode cfg = ''live'' \<Longrightarrow> \<exists>eo\<in>set oo. snd eo \<noteq> [] \<Longrightarrow>
     sweep_exchanges cfg fmt t oo cancelled = (Some TypeError, cancelled)"
proof (induction oo)
  case Nil
  then show ?case by simp
next
  case (Cons eo oo)
  show ?case
  proof (cases "snd eo")
    case Nil
    with Cons show ?thesis by simp
  next
    case (Cons a list)
    then have "snd eo \<noteq> []" by simp
    with Cons.prems(1)
    have "sweep_orders cfg fmt t (fst eo) (snd eo) cancelled = (Some TypeError, cancelled)"
      by (rule sweep_orders_live)
    then show ?thesis by simp
  qed
qed

text \<open>Claim C4 at a concrete input: live mode, a limit of one hour, one order of
  timestamp 0 and the clock at 1000000 seconds, so that the order is stale. The claim has
  the order cancelled; the sweep raises TypeError and cancels nothing.\<close>

theorem stale_order_sweep_raises:
  "sweep_exchanges live_config c_format 1000000 [(''binance'', [stale_order])] [] =
     (Some TypeError, [])"
  by (simp add: live_config_def datetime_gt_def)

subsection \<open>Reconciliation in simulation mode\<close>

lemma add_row_nonempty: "add_row r hs \<noteq> []"
  by (simp add: add_row_def Let_def)

lemma fold_add_row_nonempty: "hs \<noteq> [] \<Longrightarrow> fold add_row rows hs \<noteq> []"
  by (induction rows arbitrary: hs) (simp_all add: add_row_nonempty)

lemma get_holdings_empty_iff: "get_holdings d = [] \<longleftrightarrow> holdings d = []"
  by (cases "holdings d") (simp_all add: get_holdings_def fold_add_row_nonempty add_row_nonempty)

text \<open>Claim C9. Outside live mode, reconciliation of a holdings table that has at least
  one row returns normally and leaves the database as it is: no holding changes.\<close>

theorem reconcile_simulation_is_noop:
  "mode cfg \<noteq> ''live'' \<Longrightarrow> holdings d \<noteq> [] \<Longrightarrow> reconcile cfg gam exs d = (None, d)"
  by (simp add: reconcile_def get_holdings_empty_iff)

theorem reconcile_simulation_is_noop_witness:
  "mode example_config \<noteq> ''live'' \<and> holdings usdt_ledger \<noteq> [] \<and>
   reconcile example_config skewed_account [''binance''] usdt_ledger = (None, usdt_ledger)"
  using reconcile_simulation_is_noop [of example_config usdt_ledger skewed_account "[''binance'']"]
  by (simp add: example_config_def usdt_ledger_def)

subsection \<open>The two worked trades\<close>

text \<open>Claim C6. In simulation mode, a buy of a base asset that has no row in the holdings
  table, paid from a quote asset whose one row has a free volume of 100, under a trade limit
  of 40 for the quote asset and a best ask of 2, returns normally: the transactions table
  gains exactly one record, with \<open>quote_value = 40\<close> and \<open>base_volume = 20\<close>, the
  quote row's free volume goes from 100 to 60, and the base asset gets a new row of 20.\<close>

theorem buy_guard_example:
  assumes sim: "mode cfg \<noteq> ''live''"
    and ask: "asks (gob market_pair ex) = (2, size0) # more_asks"
    and limit: "map_of (trade_limits cfg) quote = Some 40"
    and absent: "read_holdings d ex base = []"
    and qrow: "read_holdings d ex quote = [(j, q)]"
    and qfree: "volume_free q = 100"
  shows "buy cfg gob base quote market_pair ex (get_holdings d) d =
           (None,
            d\<lparr>holdings :=
                (holdings d @
                   [\<lparr>volume_free = 20, volume_used = 0, volume_total = 20,
                     exchange = ex, symbol = base\<rparr>])
                [j := q\<lparr>volume_free := 60, volume_total := 60 + volume_used q\<rparr>],
              transactions :=
                transactions d @
                  [\<lparr>tx_exchange = ex, base_symbol = base, quote_symbol = quote,
                    action = ''buy_base'', base_value = 2, quote_value = 40,
                    fee_rate = 0, base_volume = 20, quote_volume = 40\<rparr>]\<rparr>)"
proof -
  have ne: "base \<noteq> quote" using absent qrow by auto
  have look: "lookup_holding (get_holdings d) ex quote = Inr (row_volumes q)"
    using qrow by (rule lookup_get_holdings_one)
  have amount: "apply_trade_limit cfg quote (volume_free (row_volumes q)) = 40"
    using limit qfree by (simp add: apply_trade_limit_def row_volumes_def)
  have top: "top_price (asks (gob market_pair ex)) = Some 2"
    using ask by (simp add: top_price_def)
  let ?b = "\<lparr>volume_free = 20, volume_used = 0, volume_total = 20,
              exchange = ex, symbol = base\<rparr>"
  have after: "read_holdings (create_holding ?b d) ex quote = [(j, q)]"
    using ne qrow by (simp add: read_holdings_create)
  show ?thesis
    unfolding buy_def
    using sim absent
    by (simp add: top look amount after one_row_def adjust_free_def qfree
        update_holding_def create_transaction_def)
       (simp add: create_holding_def)
qed

theorem buy_guard_example_witness:
  "buy example_config example_books ''BTC'' ''USDT'' ''BTC/USDT'' ''binance''
     (get_holdings usdt_ledger) usdt_ledger =
   (None,
    \<lparr>holdings = [\<lparr>volume_free = 60, volume_used = 0, volume_total = 60,
                  exchange = ''binance'', symbol = ''USDT''\<rparr>,
                 \<lparr>volume_free = 20, volume_used = 0, volume_total = 20,
                  exchange = ''binance'', symbol = ''BTC''\<rparr>],
     transactions = [\<lparr>tx_exchange = ''binance'', base_symbol = ''BTC'', quote_symbol = ''USDT'',
                      action = ''buy_base'', base_value = 2, quote_value = 40,
                      fee_rate = 0, base_volume = 20, quote_volume = 40\<rparr>]\<rparr>)"
  using buy_guard_example [of example_config example_books "''BTC/USDT''" "''binance''" 1 "[]"
      "''USDT''" usdt_ledger "''BTC''" 0
      "\<lparr>volume_free = 100, volume_used = 0, volume_total = 100,
        exchange = ''binance'', symbol = ''USDT''\<rparr>"]
  by (simp add: example_config_def example_books_def usdt_ledger_def read_holdings_def)

text \<open>Claim C7, as the code has it. In simulation mode, a sell of a base asset whose one
  row has a free volume of 10, with no trade limit for the base symbol and a best bid of 5,
  where the quote asset (another asset) has its one row in the table, returns normally:
  the transactions table gains exactly one record, with \<open>base_volume = 10\<close> and
  \<open>quote_volume = 50\<close>, the base row's free volume becomes 0, and the quote row gains
  50.\<close>

theorem sell_guard_example:
  assumes sim: "mode cfg \<noteq> ''live''"
    and bid: "bids (gob market_pair ex) = (5, size0) # more_bids"
    and nolimit: "map_of (trade_limits cfg) base = None"
    and brow: "read_holdings d ex base = [(i, b)]"
    and bfree: "volume_free b = 10"
    and qrow: "read_holdings d ex quote = [(j, q)]"
    and ne: "base \<noteq> quote"
  shows "sell cfg gob base quote market_pair ex (get_holdings d) d =
           (None,
            d\<lparr>holdings :=
                (holdings d)
                [i := b\<lparr>volume_free := 0, volume_total := volume_used b\<rparr>,
                 j := q\<lparr>volume_free := volume_free q + 50,
                        volume_total := volume_free q + 50 + volume_used q\<rparr>],
              transactions :=
                transactions d @
                  [\<lparr>tx_exchange = ex, base_symbol = base, quote_symbol = quote,
                    action = ''sell_base'', base_value = 5, quote_value = 50,
                    fee_rate = 0, base_volume = 10, quote_volume = 50\<rparr>]\<rparr>)"
proof -
  have look: "lookup_holding (get_holdings d) ex base = Inr (row_volumes b)"
    using brow by (rule lookup_get_holdings_one)
  have amount: "apply_trade_limit cfg base (volume_free (row_volumes b)) = 10"
    using nolimit bfree by (simp add: apply_trade_limit_def row_volumes_def)
  have top: "top_price (bids (gob market_pair ex)) = Some 5"
    using bid by (simp add: top_price_def)
  have "(i, b) \<in> set (read_holdings d ex base)" using brow by simp
  from read_holdings_mem[OF this]
  have ib: "i < length (holdings d)" "holdings d ! i = b" "exchange b = ex" "symbol b = base"
    by simp_all
  have after: "read_holdings (update_holding i (adjust_free b (- 10)) d) ex quote = [(j, q)]"
    using ib ne qrow by (simp add: read_holdings_update_other)
  show ?thesis
    unfolding sell_def
    using sim
    by (simp add: top look amount brow after one_row_def)
       (simp add: adjust_free_def bfree update_holding_def create_transaction_def)
qed

theorem sell_guard_example_witness:
  "sell example_config example_books ''ETH'' ''BTC'' ''ETH/BTC'' ''binance''
     (get_holdings eth_btc_ledger) eth_btc_ledger =
   (None,
    \<lparr>holdings = [\<lparr>volume_free = 0, volume_used = 0, volume_total = 0,
                  exchange = ''binance'', symbol = ''ETH''\<rparr>,
                 \<lparr>volume_free = 51, volume_used = 0, volume_total = 51,
                  exchange = ''binance'', symbol = ''BTC''\<rparr>],
     transactions = [\<lparr>tx_exchange = ''binance'', base_symbol = ''ETH'', quote_symbol = ''BTC'',
                      action = ''sell_base'', base_value = 5, quote_value = 50,
                      fee_rate = 0, base_volume = 10, quote_volume = 50\<rparr>]\<rparr>)"
  using sell_guard_example [of example_config example_books "''ETH/BTC''" "''binance''" 1 "[]"
      "''ETH''" eth_btc_ledger 0
      "\<lparr>volume_free = 10, volume_used = 0, volume_total = 10,
        exchange = ''binance'', symbol = ''ETH''\<rparr>" "''BTC''" 1
      "\<lparr>volume_free = 1, volume_used = 0, volume_total = 1,
        exchange = ''binance'', symbol = ''BTC''\<rparr>"]
  by (simp add: example_config_def example_books_def eth_btc_ledger_def read_holdings_def)

text \<open>The evaluation of a sale of ETH for BTC on a table that has a row for ETH and none
  for BTC: the ETH row is written back with a free volume of 0, then the query for the BTC
  row raises, and no transaction is recorded.\<close>

lemma sell_leaves_base_debited:
  "sell example_config example_books ''ETH'' ''BTC'' ''ETH/BTC'' ''binance''
     (get_holdings eth_ledger) eth_ledger =
   (Some NoResultFound,
    \<lparr>holdings = [\<lparr>volume_free = 0, volume_used = 0, volume_total = 0,
                  exchange = ''binance'', symbol = ''ETH''\<rparr>],
     transactions = []\<rparr>)"
  by (simp add: sell_def example_config_def example_books_def eth_ledger_def read_holdings_def
      get_holdings_def add_row_def row_volumes_def lookup_holding_def top_price_def
      apply_trade_limit_def one_row_def update_holding_def adjust_free_def)

text \<open>Claim C7 as stated says nothing of the quote asset, and fails where it has no row:
  the sale of the claim records no transaction.\<close>

theorem sell_without_quote_row:
  "fst (sell example_config example_books ''ETH'' ''BTC'' ''ETH/BTC'' ''binance''
          (get_holdings eth_ledger) eth_ledger) = Some NoResultFound \<and>
   transactions (snd (sell example_config example_books ''ETH'' ''BTC'' ''ETH/BTC'' ''binance''
          (get_holdings eth_ledger) eth_ledger)) = [] \<and>
   map volume_free (holdings (snd (sell example_config example_books ''ETH'' ''BTC'' ''ETH/BTC''
          ''binance'' (get_holdings eth_ledger) eth_ledger))) = [0]"
  unfolding sell_leaves_base_debited by simp

subsection \<open>All or nothing\<close>

lemma transactions_simps [simp]:
  "transactions (create_transaction t d) = transactions d @ [t]"
  "transactions (update_holding i h d) = transactions d"
  "transactions (create_holding h d) = transactions d"
  by (simp_all add: create_transaction_def update_holding_def create_holding_def)

lemma read_holdings_update_elsewhere:
  assumes "(j, q) \<in> set (read_holdings d ex s0)"
    and "exchange h' = ex" and "symbol h' = s0" and "s \<noteq> s0"
  shows "read_holdings (update_holding j h' d) ex s = read_holdings d ex s"
proof -
  from read_holdings_mem[OF assms(1)] assms(2,3)
  have "j < length (holdings d)" "exchange h' = exchange (holdings d ! j)"
    "symbol h' = symbol (holdings d ! j)" by simp_all
  moreover have "\<not> (exchange h' = ex \<and> symbol h' = s)" using assms(3,4) by simp
  ultimately show ?thesis by (rule read_holdings_update_other)
qed

lemma asset_free_create_transaction [simp]:
  "asset_free (create_transaction t d) ex s = asset_free d ex s"
  by (simp add: asset_free_def)

lemma asset_free_one: "read_holdings d ex s = [(i, h)] \<Longrightarrow> asset_free d ex s = volume_free h"
  by (simp add: asset_free_def)

lemma buy_all_or_nothing:
  assumes sim: "mode cfg \<noteq> ''live''" and ne: "base \<noteq> quote"
    and q1: "read_holdings d ex quote = [(j, q)]"
  shows "all_or_nothing 1 ex base quote d (buy cfg gob base quote market_pair ex ch d)"
proof (cases "top_price (asks (gob market_pair ex))")
  case None
  then show ?thesis by (simp add: buy_def all_or_nothing_def)
next
  case (Some base_ask)
  show ?thesis
  proof (cases "lookup_holding ch ex quote")
    case (Inl e)
    with Some show ?thesis by (simp add: buy_def all_or_nothing_def)
  next
    case (Inr v)
    define qb where "qb = apply_trade_limit cfg quote (volume_free v)"
    define bv where "bv = qb / base_ask"
    define t where "t = \<lparr>tx_exchange = ex, base_symbol = base, quote_symbol = quote,
      action = ''buy_base'', base_value = base_ask, quote_value = qb,
      fee_rate = 0, base_volume = bv, quote_volume = qb\<rparr>"
    have qmem: "(j, q) \<in> set (read_holdings d ex quote)" using q1 by simp
    show ?thesis
    proof (cases "read_holdings d ex base")
      case Nil
      define b where "b = \<lparr>volume_free = bv, volume_used = 0, volume_total = bv,
        exchange = ex, symbol = base\<rparr>"
      define d1 where "d1 = create_holding b d"
      define d2 where "d2 = update_holding j (adjust_free q (- qb)) d1"
      have r1: "read_holdings d1 ex quote = [(j, q)]"
        using q1 ne by (simp add: d1_def b_def read_holdings_create)
      have res: "buy cfg gob base quote market_pair ex ch d = (None, create_transaction t d2)"
        using Some Inr Nil sim r1
        by (simp add: buy_def Let_def one_row_def qb_def bv_def t_def d1_def d2_def b_def)
      have base1: "read_holdings d1 ex base = [(length (holdings d), b)]"
        using Nil by (simp add: d1_def b_def read_holdings_create)
      have "(j, q) \<in> set (read_holdings d1 ex quote)" using r1 by simp
      then have "read_holdings d2 ex base = read_holdings d1 ex base"
        unfolding d2_def using ne
        by (intro read_holdings_update_elsewhere[where q = q and ?s0.0 = quote])
           (simp_all add: read_holdings_mem)
      with base1 have fb: "asset_free d2 ex base = bv"
        by (simp add: asset_free_def b_def)
      have "read_holdings d2 ex quote = [(j, adjust_free q (- qb))]"
        unfolding d2_def using r1 qmem
        by (intro read_holdings_update_same) (simp_all add: read_holdings_mem)
      then have fq: "asset_free d2 ex quote = volume_free q - qb"
        by (simp add: asset_free_def adjust_free_def)
      have f0: "asset_free d ex base = 0" "asset_free d ex quote = volume_free q"
        using Nil q1 by (simp_all add: asset_free_def)
      show ?thesis
      proof -
        have tr: "transactions d2 = transactions d" by (simp add: d2_def d1_def)
        show ?thesis
          unfolding res all_or_nothing_def
          by (simp add: fb fq f0 t_def tr)
      qed
    next
      case (Cons r rs)
      show ?thesis
      proof (cases rs)
        case Nil
        obtain i b0 where r: "r = (i, b0)" by (cases r)
        with Cons Nil have b1: "read_holdings d ex base = [(i, b0)]" by simp
        then have bmem: "(i, b0) \<in> set (read_holdings d ex base)" by simp
        define d1 where "d1 = update_holding i (adjust_free b0 bv) d"
        define d2 where "d2 = update_holding j (adjust_free q (- qb)) d1"
        have r1: "read_holdings d1 ex quote = [(j, q)]"
          unfolding d1_def using q1 ne bmem read_holdings_mem[OF bmem]
          by (subst read_holdings_update_elsewhere[where q = b0 and ?s0.0 = base]) simp_all
        have res: "buy cfg gob base quote market_pair ex ch d = (None, create_transaction t d2)"
          using Some Inr b1 sim r1
          by (simp add: buy_def Let_def one_row_def qb_def bv_def t_def d1_def d2_def)
        have base1: "read_holdings d1 ex base = [(i, adjust_free b0 bv)]"
          unfolding d1_def using b1 read_holdings_mem[OF bmem]
          by (intro read_holdings_update_same) simp_all
        have qmem1: "(j, q) \<in> set (read_holdings d1 ex quote)" using r1 by simp
        have "read_holdings d2 ex base = read_holdings d1 ex base"
          unfolding d2_def using ne qmem1 read_holdings_mem[OF qmem1]
          by (intro read_holdings_update_elsewhere[where q = q and ?s0.0 = quote]) simp_all
        with base1 have fb: "asset_free d2 ex base = volume_free b0 + bv"
          by (simp add: asset_free_def adjust_free_def)
        have "read_holdings d2 ex quote = [(j, adjust_free q (- qb))]"
          unfolding d2_def using r1 read_holdings_mem[OF qmem1]
          by (intro read_holdings_update_same) simp_all
        then have fq: "asset_free d2 ex quote = volume_free q - qb"
          by (simp add: asset_free_def adjust_free_def)
        have f0: "asset_free d ex base = volume_free b0" "asset_free d ex quote = volume_free q"
          using b1 q1 by (simp_all add: asset_free_def)
        show ?thesis
        proof -
          have tr: "transactions d2 = transactions d" by (simp add: d2_def d1_def)
          show ?thesis
            unfolding res all_or_nothing_def
            by (simp add: fb fq f0 t_def tr)
        qed
      next
        case (Cons r' rs')
        with \<open>read_holdings d ex base = r # rs\<close> Some Inr sim show ?thesis
          by (simp add: buy_def Let_def one_row_def all_or_nothing_def)
      qed
    qed
  qed
qed

lemma sell_all_or_nothing:
  assumes sim: "mode cfg \<noteq> ''live''" and ne: "base \<noteq> quote"
    and q1: "read_holdings d ex quote = [(j, q)]"
  shows "all_or_nothing (- 1) ex base quote d (sell cfg gob base quote market_pair ex ch d)"
proof (cases "top_price (bids (gob market_pair ex))")
  case None
  then show ?thesis by (simp add: sell_def all_or_nothing_def)
next
  case (Some bid)
  show ?thesis
  proof (cases "lookup_holding ch ex base")
    case (Inl e)
    with Some show ?thesis by (simp add: sell_def all_or_nothing_def)
  next
    case (Inr v)
    define bb where "bb = apply_trade_limit cfg base (volume_free v)"
    define qv where "qv = bb * bid"
    define t where "t = \<lparr>tx_exchange = ex, base_symbol = base, quote_symbol = quote,
      action = ''sell_base'', base_value = bid, quote_value = qv,
      fee_rate = 0, base_volume = bb, quote_volume = qv\<rparr>"
    show ?thesis
    proof (cases "one_row (read_holdings d ex base)")
      case (Inl e)
      with Some Inr sim show ?thesis
        by (simp add: sell_def Let_def all_or_nothing_def)
    next
      case row: (Inr r)
      obtain i b0 where r: "r = (i, b0)" by (cases r)
      with row have b1: "read_holdings d ex base = [(i, b0)]"
        by (auto simp: one_row_def split: list.splits)
      then have bmem: "(i, b0) \<in> set (read_holdings d ex base)" by simp
      define d1 where "d1 = update_holding i (adjust_free b0 (- bb)) d"
      define d2 where "d2 = update_holding j (adjust_free q qv) d1"
      have r1: "read_holdings d1 ex quote = [(j, q)]"
        unfolding d1_def using q1 ne bmem read_holdings_mem[OF bmem]
        by (subst read_holdings_update_elsewhere[where q = b0 and ?s0.0 = base]) simp_all
      have res: "sell cfg gob base quote market_pair ex ch d = (None, create_transaction t d2)"
        using Some Inr b1 sim r1
        by (simp add: sell_def Let_def one_row_def bb_def qv_def t_def d1_def d2_def)
      have base1: "read_holdings d1 ex base = [(i, adjust_free b0 (- bb))]"
        unfolding d1_def using b1 read_holdings_mem[OF bmem]
        by (intro read_holdings_update_same) simp_all
      have qmem1: "(j, q) \<in> set (read_holdings d1 ex quote)" using r1 by simp
      have "read_holdings d2 ex base = read_holdings d1 ex base"
        unfolding d2_def using ne qmem1 read_holdings_mem[OF qmem1]
        by (intro read_holdings_update_elsewhere[where q = q and ?s0.0 = quote]) simp_all
      with base1 have fb: "asset_free d2 ex base = volume_free b0 - bb"
        by (simp add: asset_free_def adjust_free_def)
      have "read_holdings d2 ex quote = [(j, adjust_free q qv)]"
        unfolding d2_def using r1 read_holdings_mem[OF qmem1]
        by (intro read_holdings_update_same) simp_all
      then have fq: "asset_free d2 ex quote = volume_free q + qv"
        by (simp add: asset_free_def adjust_free_def)
      have f0: "asset_free d ex base = volume_free b0" "asset_free d ex quote = volume_free q"
        using b1 q1 by (simp_all add: asset_free_def)
      show ?thesis
      proof -
        have tr: "transactions d2 = transactions d" by (simp add: d2_def d1_def)
        show ?thesis
          unfolding res all_or_nothing_def
          by (simp add: fb fq f0 t_def tr)
      qed
    qed
  qed
qed

text \<open>Claim C2, as the code has it. In simulation mode, a buy or a sell of a pair of two
  different assets, on a table where the quote asset has exactly one row, is all or
  nothing: either the database is left as it was (the side of the order book is empty, or
  an exception is raised before the first write), or the operation returns, exactly one
  transaction is recorded, and the free volumes of the base and of the quote asset have
  moved by the volumes of that transaction.\<close>

theorem trade_all_or_nothing:
  assumes "mode cfg \<noteq> ''live''" and "base \<noteq> quote"
    and "read_holdings d ex quote = [(j, q)]"
  shows "all_or_nothing 1 ex base quote d (buy cfg gob base quote market_pair ex ch d) \<and>
         all_or_nothing (- 1) ex base quote d (sell cfg gob base quote market_pair ex ch d)"
  using assms by (simp add: buy_all_or_nothing sell_all_or_nothing)

theorem trade_all_or_nothing_witness:
  "mode example_config \<noteq> ''live'' \<and>
   read_holdings eth_btc_ledger ''binance'' ''BTC'' =
     [(1, \<lparr>volume_free = 1, volume_used = 0, volume_total = 1,
            exchange = ''binance'', symbol = ''BTC''\<rparr>)] \<and>
   all_or_nothing 1 ''binance'' ''ETH'' ''BTC'' eth_btc_ledger
     (buy example_config example_books ''ETH'' ''BTC'' ''ETH/BTC'' ''binance''
        (get_holdings eth_btc_ledger) eth_btc_ledger) \<and>
   all_or_nothing (- 1) ''binance'' ''ETH'' ''BTC'' eth_btc_ledger
     (sell example_config example_books ''ETH'' ''BTC'' ''ETH/BTC'' ''binance''
        (get_holdings eth_btc_ledger) eth_btc_ledger)"
  using trade_all_or_nothing [of example_config "''ETH''" "''BTC''" eth_btc_ledger "''binance''" 1
      "\<lparr>volume_free = 1, volume_used = 0, volume_total = 1,
        exchange = ''binance'', symbol = ''BTC''\<rparr>" example_books "''ETH/BTC''"
      "get_holdings eth_btc_ledger"]
  by (simp add: example_config_def eth_btc_ledger_def read_holdings_def)

text \<open>Claim C2 as stated fails: the code has no transaction around its writes and no
  rollback. The sale of ETH for BTC without a row for BTC ends in an exception with the
  ETH row already debited; a whole cycle reaches it from a cold ETH/BTC.\<close>

theorem sell_is_partial_without_quote_row:
  "\<not> all_or_nothing (- 1) ''binance'' ''ETH'' ''BTC'' eth_ledger
       (sell example_config example_books ''ETH'' ''BTC'' ''ETH/BTC'' ''binance''
          (get_holdings eth_ledger) eth_ledger)"
  unfolding sell_leaves_base_debited
  by (simp add: all_or_nothing_def eth_ledger_def)

lemma cycle_leaves_sale_half_done:
  "run example_config cold_cycle eth_ledger =
     (Some NoResultFound, [],
      \<lparr>holdings = [\<lparr>volume_free = 0, volume_used = 0, volume_total = 0,
                    exchange = ''binance'', symbol = ''ETH''\<rparr>],
       transactions = []\<rparr>)"
proof -
  have h: "get_holdings eth_ledger =
      [(''binance'', [(''ETH'', \<lparr>volume_free = 10, volume_used = 0, volume_total = 10\<rparr>)])]"
    by (simp add: get_holdings_def eth_ledger_def add_row_def row_volumes_def)
  have c: "classify_exchanges (analyze cold_cycle) (market_data cold_cycle) [] [] =
      Inr ([(''binance'', [(''ETH/BTC'', cold_result)])], [(''binance'', [''ETH/BTC''])])"
    by (simp add: cold_cycle_def classify_markets_def rsi_sorted_pairs_def cold_result_def
        recent_value_def)
  have r: "reconcile example_config (get_account_markets cold_cycle) (exchanges cold_cycle)
      eth_ledger = (None, eth_ledger)"
    by (simp add: reconcile_def h example_config_def)
  have d: "decide cold_result ''ETH'' ''BTC'' ''binance'' (get_holdings eth_ledger) = Inr SELL"
    by (simp add: h decide_def cold_result_def)
  have g: "get_order_book cold_cycle = example_books" by (simp add: cold_cycle_def)
  have o: "open_orders cold_cycle = []" by (simp add: cold_cycle_def)
  show ?thesis
    unfolding run_def c r g o
    by (simp add: visit_pair_def split_pair_def d sell_leaves_base_debited)
qed

subsection \<open>No liquidity\<close>

text \<open>Claim C8. A buy whose order book has an empty ask side, and a sell whose order book
  has an empty bid side, return normally with the database as it was: no transaction is
  created and no holding is changed.\<close>

theorem no_liquidity_is_noop:
  "(asks (gob market_pair ex) = [] \<longrightarrow>
      buy cfg gob base quote market_pair ex ch d = (None, d)) \<and>
   (bids (gob market_pair ex) = [] \<longrightarrow>
      sell cfg gob base quote market_pair ex ch d = (None, d))"
  by (simp add: buy_def sell_def top_price_def)

theorem no_liquidity_is_noop_witness:
  "asks (empty_books ''BTC/USDT'' ''binance'') = [] \<and>
   buy example_config empty_books ''BTC'' ''USDT'' ''BTC/USDT'' ''binance''
     (get_holdings usdt_ledger) usdt_ledger = (None, usdt_ledger) \<and>
   bids (empty_books ''BTC/USDT'' ''binance'') = [] \<and>
   sell example_config empty_books ''BTC'' ''USDT'' ''BTC/USDT'' ''binance''
     (get_holdings usdt_ledger) usdt_ledger = (None, usdt_ledger)"
  using no_liquidity_is_noop [of empty_books "''BTC/USDT''" "''binance''" example_config
      "''BTC''" "''USDT''" "get_holdings usdt_ledger" usdt_ledger]
  by (simp add: empty_books_def)

subsection \<open>The decision for a pair\<close>

text \<open>Claim C3, as the code has it. For a pair whose exchange and quote asset are in
  \<^verbatim>\<open>current_holdings\<close>, the loop calls \<^verbatim>\<open>buy\<close> exactly when the pair is hot,
  the quote asset's \<open>volume_total\<close> (not its \<open>volume_free\<close>) is non-zero, and the base
  asset is absent or has a \<open>volume_total\<close> of zero. In particular a base asset with a
  positive \<open>volume_total\<close> is never bought, whatever the quote balance.\<close>

theorem buy_decision_iff:
  "(decide m base quote ex ch = Inr BUY \<longleftrightarrow>
      is_hot m \<and>
      (\<exists>hs q. map_of ch ex = Some hs \<and> map_of hs quote = Some q \<and> volume_total q \<noteq> 0 \<and>
              (case map_of hs base of None \<Rightarrow> True | Some b \<Rightarrow> volume_total b = 0))) \<and>
   (map_of ch ex = Some hs' \<and> map_of hs' base = Some b' \<and> volume_total b' > 0 \<longrightarrow>
      decide m base quote ex ch \<noteq> Inr BUY)"
  by (auto simp: decide_def lookup_holding_def split: option.splits sum.splits)

theorem buy_decision_iff_witness:
  "map_of held_base_snapshot ''binance'' =
     Some [(''USDT'', \<lparr>volume_free = 100, volume_used = 0, volume_total = 100\<rparr>),
           (''BTC'', \<lparr>volume_free = 3, volume_used = 0, volume_total = 3\<rparr>)] \<and>
   decide hot_result ''BTC'' ''USDT'' ''binance'' held_base_snapshot \<noteq> Inr BUY \<and>
   decide hot_result ''ETH'' ''USDT'' ''binance'' held_base_snapshot = Inr BUY"
  using buy_decision_iff [of hot_result "''BTC''" "''USDT''" "''binance''" held_base_snapshot
      "[(''USDT'', \<lparr>volume_free = 100, volume_used = 0, volume_total = 100\<rparr>),
        (''BTC'', \<lparr>volume_free = 3, volume_used = 0, volume_total = 3\<rparr>)]"
      "\<lparr>volume_free = 3, volume_used = 0, volume_total = 3\<rparr>"]
    buy_decision_iff [of hot_result "''ETH''" "''USDT''" "''binance''" held_base_snapshot]
  by (simp add: held_base_snapshot_def hot_result_def)

text \<open>Claim C3 as stated, with the free balance of the quote asset, fails: a quote asset
  whose volume is all in open orders (free 0, used 5, total 5) still has the hot pair
  bought.\<close>

theorem buy_decided_on_locked_quote:
  "lookup_holding locked_quote_snapshot ''binance'' ''USDT'' =
     Inr \<lparr>volume_free = 0, volume_used = 5, volume_total = 5\<rparr> \<and>
   decide hot_result ''BTC'' ''USDT'' ''binance'' locked_quote_snapshot = Inr BUY"
  by (simp add: decide_def lookup_holding_def locked_quote_snapshot_def hot_result_def)

text \<open>Claim C10. When a hot pair is visited and its quote asset has no row in the holdings
  table for the exchange, the subscript \<^verbatim>\<open>current_holdings[exchange][quote_symbol]\<close>
  raises KeyError: the loop stops there, the pairs after it are not visited, and the
  database is as it was.\<close>

theorem hot_pair_without_quote_row_aborts:
  assumes "split_pair market_pair = Inr (base, quote)"
    and "map_of markets market_pair = Some m"
    and "is_hot m"
    and "read_holdings d ex quote = []"
  shows "visit_pairs cfg gob ex markets (market_pair # rest) (get_holdings d) d =
           (Some KeyError, get_holdings d, d)"
  using assms lookup_get_holdings_none[of d ex quote]
  by (simp add: visit_pair_def decide_def)

theorem hot_pair_without_quote_row_aborts_witness:
  "split_pair ''BTC/USDT'' = Inr (''BTC'', ''USDT'') \<and>
   map_of [(''BTC/USDT'', hot_result)] ''BTC/USDT'' = Some hot_result \<and>
   is_hot hot_result \<and>
   read_holdings eth_ledger ''binance'' ''USDT'' = [] \<and>
   visit_pairs example_config example_books ''binance'' [(''BTC/USDT'', hot_result)]
     [''BTC/USDT''] (get_holdings eth_ledger) eth_ledger =
     (Some KeyError, get_holdings eth_ledger, eth_ledger)"
  using hot_pair_without_quote_row_aborts [of "''BTC/USDT''" "''BTC''" "''USDT''"
      "[(''BTC/USDT'', hot_result)]" hot_result eth_ledger "''binance''"
      example_config example_books "[]"]
  by (simp add: split_pair_def hot_result_def eth_ledger_def read_holdings_def)

text \<open>The absence of the base asset is the guarded one: it leads to the purchase. And
  the state is reachable: a whole cycle that bootstraps the table from an account holding
  only ETH, with BTC/USDT hot, ends in KeyError.\<close>

lemma base_absence_is_guarded:
  assumes "is_hot m" and "lookup_holding ch ex quote = Inr q" and "volume_total q \<noteq> 0"
    and "lookup_holding ch ex base = Inl KeyError"
  shows "decide m base quote ex ch = Inr BUY"
  using assms by (auto simp: decide_def lookup_holding_def split: option.splits)

lemma cycle_aborts_on_missing_quote:
  "run example_config hot_cycle empty_ledger = (Some KeyError, [], eth_ledger)"
  by (simp add: run_def hot_cycle_def classify_markets_def rsi_sorted_pairs_def hot_result_def
      recent_value_def reconcile_def get_holdings_def empty_ledger_def eth_only_account_def
      account_volumes_def create_holding_def eth_ledger_def add_row_def row_volumes_def
      visit_pair_def split_pair_def decide_def lookup_holding_def)

subsection \<open>The order of the visits\<close>

text \<open>The keys of \<^verbatim>\<open>rsi_data[exchange]\<close> are the pairs whose analysis did not fail,
  in the order of the markets.\<close>

lemma update_keys_cases:
  "map fst (AList.update k v al) = (if k \<in> set (map fst al) then map fst al else map fst al @ [k])"
  by (simp add: update_keys)

lemma classify_markets_fold_keys:
  "distinct markets \<Longrightarrow> set markets \<inter> fst ` set acc = {} \<Longrightarrow>
   map fst (fold (\<lambda>market_pair rsi. case an ex market_pair of
                                 None \<Rightarrow> rsi
                               | Some r \<Rightarrow> AList.update market_pair r rsi) markets acc) =
   map fst acc @ filter (\<lambda>p. an ex p \<noteq> None) markets"
proof (induction markets arbitrary: acc)
  case Nil
  then show ?case by simp
next
  case (Cons p markets)
  show ?case
  proof (cases "an ex p")
    case None
    with Cons show ?thesis by simp
  next
    case (Some r)
    from Cons.prems have d: "distinct markets" and
      n: "set markets \<inter> fst ` set (AList.update p r acc) = {}" and pn: "p \<notin> fst ` set acc"
      by (auto simp: dom_update)
    from Cons.IH[OF d n] Some pn show ?thesis by (simp add: update_keys_cases)
  qed
qed

lemma classify_markets_keys:
  "distinct markets \<Longrightarrow>
     map fst (classify_markets an ex markets) = filter (\<lambda>p. an ex p \<noteq> None) markets"
  unfolding classify_markets_def
  using classify_markets_fold_keys[of markets "[]" an ex] by simp

text \<open>Claim C5, as the code has it. When every classified pair has an indicator value,
  \<^verbatim>\<open>rsi_sorted_pairs[exchange]\<close>, the list that the decision loop walks from its
  head, holds the classified pairs in ascending order of their most recent value, and
  pairs of equal value stay in the order in which they were classified (the sort is
  stable); the identifier of the pair plays no part.\<close>

theorem pairs_sorted_by_recent_value:
  assumes "\<forall>e\<in>set rsi. rsi_values (snd e) \<noteq> []"
  shows "\<exists>ps. rsi_sorted_pairs rsi = Inr ps \<and>
              sorted (map (recent_value rsi) ps) \<and>
              set ps = fst ` set rsi \<and> length ps = length rsi \<and>
              (\<forall>v. filter (\<lambda>x. recent_value rsi x = v) ps =
                   filter (\<lambda>x. recent_value rsi x = v) (map fst rsi))"
proof -
  from assms have "\<not> list_ex (\<lambda>e. rsi_values (snd e) = []) rsi"
    by (simp add: list_ex_iff)
  then have "rsi_sorted_pairs rsi = Inr (sort_key (recent_value rsi) (map fst rsi))"
    by (simp add: rsi_sorted_pairs_def)
  then show ?thesis
    by (simp add: sort_key_stable)
qed

theorem pairs_sorted_by_recent_value_witness:
  "list_all (\<lambda>e. rsi_values (snd e) \<noteq> []) abc_rsi \<and>
   rsi_sorted_pairs abc_rsi = Inr [''A/Q'', ''B/Q'', ''C/Q'']"
  using pairs_sorted_by_recent_value [of abc_rsi]
  by (simp add: abc_rsi_def rsi_sorted_pairs_def recent_value_def)

text \<open>Claim C5 as stated fails on a tie: B/Q classified before A/Q with the same value is
  visited first, though A/Q is the smaller identifier.\<close>

theorem tie_keeps_insertion_order:
  "rsi_sorted_pairs tie_rsi = Inr [''B/Q'', ''A/Q''] \<and>
   recent_value tie_rsi ''A/Q'' = recent_value tie_rsi ''B/Q'' \<and>
   ''A/Q'' < ''B/Q''"
  by (simp add: tie_rsi_def rsi_sorted_pairs_def recent_value_def)

end
